theory Spec2Isabelle
  imports Complex_Main "HOL-Library.Sublist"
begin

section \<open>Text\<close>

text \<open>
  Python strings are modelled as lists of 8-bit characters, read as the code points
  U+0000 to U+00FF. \<open>None\<close> is the \<open>None\<close> of an option type. Console output
  (\<open>print\<close>) is not part of the model.
\<close>

definition lower_char :: "char \<Rightarrow> char" where
  \<comment> \<open>\<open>str.lower\<close> on one code point below 256: A to Z, and the Latin-1 capitals
      U+00C0 to U+00DE without the multiplication sign U+00D7.\<close>
  "lower_char c =
     (let n = (of_char c :: nat)
      in if (65 \<le> n \<and> n \<le> 90) \<or> (192 \<le> n \<and> n \<le> 222 \<and> n \<noteq> 215)
         then char_of (n + 32) else c)"

definition str_lower :: "string \<Rightarrow> string" where
  "str_lower s = map lower_char s"

definition is_space :: "char \<Rightarrow> bool" where
  \<comment> \<open>\<open>str.isspace\<close> on one code point below 256.\<close>
  "is_space c =
     (let n = (of_char c :: nat)
      in (9 \<le> n \<and> n \<le> 13) \<or> (28 \<le> n \<and> n \<le> 32) \<or> n = 133 \<or> n = 160)"

definition str_strip :: "string \<Rightarrow> string" where
  \<comment> \<open>\<open>s.strip()\<close>\<close>
  "str_strip s = rev (dropWhile is_space (rev (dropWhile is_space s)))"

function str_delete :: "string \<Rightarrow> string \<Rightarrow> string" where
  \<comment> \<open>\<open>s.replace(old, "")\<close>: the occurrences of \<open>old\<close> are found left to right and
      do not overlap; an empty \<open>old\<close> leaves \<open>s\<close> as it is.\<close>
  "str_delete old [] = []"
| "str_delete old (c # cs) =
     (if old \<noteq> [] \<and> prefix old (c # cs)
      then str_delete old (drop (length old) (c # cs))
      else c # str_delete old cs)"
  by pat_completeness auto
termination
  by (relation "measure (\<lambda>(old, s). length s)") (auto simp: Suc_le_eq)

definition py_truthy :: "string option \<Rightarrow> bool" where
  \<comment> \<open>Truth value of a value that is a string or \<open>None\<close>.\<close>
  "py_truthy t = (case t of None \<Rightarrow> False | Some s \<Rightarrow> s \<noteq> [])"

section \<open>Exceptions\<close>

datatype exn =
    KeyError
  | IndexError
  | ValueError
  | ZeroDivisionError
  | JSONDecodeError
  | OtherError string

section \<open>utils/language.py\<close>

definition INDIAN_LANG_MAP :: "(string \<times> string) list" where
  "INDIAN_LANG_MAP =
     [(''as'', ''Assamese''), (''bn'', ''Bengali''), (''brx'', ''Bodo''),
      (''doi'', ''Dogri''), (''gu'', ''Gujarati''), (''hi'', ''Hindi''),
      (''kn'', ''Kannada''), (''kok'', ''Konkani''), (''ks'', ''Kashmiri''),
      (''mai'', ''Maithili''), (''ml'', ''Malayalam''), (''mni'', ''Manipuri''),
      (''mr'', ''Marathi''), (''ne'', ''Nepali''), (''or'', ''Odia''),
      (''pa'', ''Punjabi''), (''sa'', ''Sanskrit''), (''sat'', ''Santali''),
      (''sd'', ''Sindhi''), (''ta'', ''Tamil''), (''te'', ''Telugu''),
      (''ur'', ''Urdu'')]"

definition INDIAN_LANGS :: "string list" where
  "INDIAN_LANGS = map fst INDIAN_LANG_MAP"

definition SUPPORTED_LANGUAGES :: "(string \<times> string) list" where
  "SUPPORTED_LANGUAGES =
     [(''english'', ''en''), (''hindi'', ''hi''), (''telugu'', ''te''),
      (''tamil'', ''ta''), (''german'', ''de''), (''french'', ''fr''),
      (''bengali'', ''bn''), (''marathi'', ''mr''), (''kannada'', ''kn''),
      (''malayalam'', ''ml''), (''japanese'', ''ja''), (''spanish'', ''es''),
      (''gujarati'', ''gu''), (''punjabi'', ''pa'')]"

definition NLLB_LANG_CODE_MAP :: "(string \<times> string) list" where
  "NLLB_LANG_CODE_MAP =
     [(''en'', ''eng_Latn''), (''hi'', ''hin_Deva''), (''te'', ''tel_Telu''),
      (''ta'', ''tam_Taml''), (''bn'', ''ben_Beng''), (''ml'', ''mal_Mlym''),
      (''kn'', ''kan_Knda''), (''mr'', ''mar_Deva''), (''gu'', ''guj_Gujr''),
      (''pa'', ''pan_Guru''), (''ur'', ''urd_Arab''), (''ne'', ''npi_Deva''),
      (''or'', ''ory_Orya''), (''as'', ''asm_Beng''), (''sd'', ''snd_Arab''),
      (''si'', ''sin_Sinh''), (''fr'', ''fra_Latn''), (''de'', ''deu_Latn''),
      (''es'', ''spa_Latn''), (''zh'', ''zho_Hans''), (''ja'', ''jpn_Jpan''),
      (''ko'', ''kor_Hang''), (''ru'', ''rus_Cyrl''), (''ar'', ''arb_Arab''),
      (''pt'', ''por_Latn''), (''it'', ''ita_Latn'')]"

definition dict_get :: "(string \<times> 'v) list \<Rightarrow> string option \<Rightarrow> 'v \<Rightarrow> 'v" where
  \<comment> \<open>\<open>d.get(key, default)\<close> on a dictionary with string keys; the key may be \<open>None\<close>.\<close>
  "dict_get d key dflt =
     (case key of
        None \<Rightarrow> dflt
      | Some k \<Rightarrow> (case map_of d k of None \<Rightarrow> dflt | Some v \<Rightarrow> v))"

definition dict_contains :: "(string \<times> 'v) list \<Rightarrow> string option \<Rightarrow> bool" where
  \<comment> \<open>\<open>key in d\<close>\<close>
  "dict_contains d key = (case key of None \<Rightarrow> False | Some k \<Rightarrow> map_of d k \<noteq> None)"

definition normalize_language_input :: "string \<Rightarrow> string" where
  "normalize_language_input text =
     str_strip (str_delete ''lang'' (str_delete ''language'' (str_lower text)))"

type_synonym matcher = "string \<Rightarrow> string list \<Rightarrow> nat \<Rightarrow> real \<Rightarrow> string list"
  \<comment> \<open>\<open>difflib.get_close_matches(word, possibilities, n, cutoff)\<close>, a function of the
      Python standard library.\<close>

definition get_language_code ::
  "matcher \<Rightarrow> string \<Rightarrow> exn + (string option \<times> string option)" where
  "get_language_code gcm spoken_input =
     (let normalized = normalize_language_input spoken_input;
          matches = gcm normalized (map fst SUPPORTED_LANGUAGES) 1 (1/2)
      in case matches of
           [] \<Rightarrow> Inr (None, None)
         | lang_name # _ \<Rightarrow>
             (case map_of SUPPORTED_LANGUAGES lang_name of
                None \<Rightarrow> Inl KeyError
              | Some code \<Rightarrow> Inr (Some code, Some lang_name)))"

definition exact_matches :: matcher where
  \<comment> \<open>A matcher that accepts only the possibilities equal to the word: what
      \<open>get_close_matches\<close> returns when no other possibility reaches the cutoff.\<close>
  "exact_matches word possibilities n cutoff =
     take n (filter (\<lambda>x. x = word) possibilities)"


section \<open>The process: globals, files, library calls\<close>

datatype json =
    JNull
  | JBool bool
  | JNum real
  | JStr string
  | JList "json list"
  | JObj "(string \<times> json) list"

datatype file_data =
    JsonText json
    \<comment> \<open>text that \<open>json.load\<close> decodes to this value\<close>
  | BadText
    \<comment> \<open>text that \<open>json.load\<close> rejects with \<open>JSONDecodeError\<close>\<close>
  | Binary
    \<comment> \<open>bytes that do not decode as text\<close>
  | Wav "real list" real
    \<comment> \<open>a sound file: samples and sample rate\<close>

datatype event =
    Phase nat
    \<comment> \<open>ghost event: \<open>run_voice2voice_evaluation\<close> is about to call the function of
        phase 1 to 5\<close>
  | SdPlay
  | SdRec int real
  | SfWrite string
  | SfRead string
  | WhisperLoad
  | WhisperDetect string
  | WhisperDecode string
  | IndicLoad
  | IndicCall string string
  | Input
  | NllbLoad
  | NllbSetEngine
  | NllbQuantize
  | NllbCall string string string
  | ParlerLoad
  | TokenizerLoad
  | DescTokenizerLoad
  | ParlerGenerate string string
  | EngineInit
  | EngineSetProperty string string
  | EngineSay string
  | EngineRunAndWait
  | OpenRead string
  | OpenWrite string
  | JsonDump string

type_synonym handle = nat
  \<comment> \<open>a reference to an object made by a library\<close>

record proc =
  whisper_model_g :: "handle option"
  indic_model_g :: "handle option"
  nllb_pipeline_g :: "handle option"
  parler_model_g :: "handle option"
  tokenizer_g :: "handle option"
  desc_tokenizer_g :: "handle option"
  engine_g :: "handle option"
  files :: "string \<Rightarrow> file_data option"
  clock :: nat
  trace :: "event list"

text \<open>
  The fields ending in \<open>_g\<close> are the module globals \<open>_whisper_model\<close>,
  \<open>_indic_model\<close>, \<open>_nllb_pipeline\<close>, \<open>_parler_model\<close>, \<open>_tokenizer\<close>,
  \<open>_desc_tokenizer\<close> and \<open>_engine\<close>. \<open>clock\<close> counts the library calls made so
  far and \<open>trace\<close> lists them.
\<close>

type_synonym 'a prog = "proc \<Rightarrow> (exn + 'a) \<times> proc"

definition returnE :: "'a \<Rightarrow> 'a prog" where
  "returnE x = (\<lambda>s. (Inr x, s))"

definition raiseE :: "exn \<Rightarrow> 'a prog" where
  "raiseE e = (\<lambda>s. (Inl e, s))"

definition bindE :: "'a prog \<Rightarrow> ('a \<Rightarrow> 'b prog) \<Rightarrow> 'b prog" where
  "bindE m f = (\<lambda>s. case m s of (Inl e, s') \<Rightarrow> (Inl e, s') | (Inr x, s') \<Rightarrow> f x s')"

definition tryE :: "'a prog \<Rightarrow> (exn \<Rightarrow> 'a prog) \<Rightarrow> 'a prog" where
  \<comment> \<open>\<open>try: m except Exception as e: h e\<close>\<close>
  "tryE m h = (\<lambda>s. case m s of (Inl e, s') \<Rightarrow> h e s' | (Inr x, s') \<Rightarrow> (Inr x, s'))"

definition getE :: "(proc \<Rightarrow> 'a) \<Rightarrow> 'a prog" where
  "getE f = (\<lambda>s. (Inr (f s), s))"

definition modifyE :: "(proc \<Rightarrow> proc) \<Rightarrow> unit prog" where
  "modifyE g = (\<lambda>s. (Inr (), g s))"

definition lib :: "event \<Rightarrow> (nat \<Rightarrow> exn + 'a) \<Rightarrow> 'a prog" where
  \<comment> \<open>A call into a library: it is recorded, the clock advances, and the call returns
      or raises what the world says for this moment.\<close>
  "lib ev outcome =
     (\<lambda>s. (outcome (clock s), s\<lparr>clock := Suc (clock s), trace := trace s @ [ev]\<rparr>))"

definition mark :: "event \<Rightarrow> unit prog" where
  "mark ev = modifyE (\<lambda>s. s\<lparr>trace := trace s @ [ev]\<rparr>)"

datatype indic_output = IndicStr string | IndicSeq "string list"

record world =
  sd_play :: "nat \<Rightarrow> exn + unit"
  sd_rec :: "nat \<Rightarrow> int \<Rightarrow> real \<Rightarrow> exn + real list list"
  sf_write :: "nat \<Rightarrow> string \<Rightarrow> exn + unit"
  sf_read :: "nat \<Rightarrow> file_data option \<Rightarrow> exn + unit"
  butter :: "nat \<Rightarrow> real \<Rightarrow> real \<Rightarrow> exn + (real list \<times> real list)"
  lfilter :: "real list \<times> real list \<Rightarrow> real list \<Rightarrow> real list"
  get_close_matches :: matcher
  whisper_load :: "nat \<Rightarrow> exn + handle"
  whisper_detect :: "nat \<Rightarrow> handle \<Rightarrow> file_data option \<Rightarrow> exn + (string \<times> real) list"
  whisper_decode :: "nat \<Rightarrow> handle \<Rightarrow> file_data option \<Rightarrow> exn + string"
  indic_load :: "nat \<Rightarrow> exn + handle"
  indic_call :: "nat \<Rightarrow> handle \<Rightarrow> file_data option \<Rightarrow> string \<Rightarrow> exn + indic_output"
  user_input :: "nat \<Rightarrow> exn + string"
  nllb_load :: "nat \<Rightarrow> exn + handle"
  nllb_set_engine :: "nat \<Rightarrow> exn + unit"
  nllb_quantize :: "nat \<Rightarrow> handle \<Rightarrow> exn + unit"
  nllb_call ::
    "nat \<Rightarrow> handle \<Rightarrow> string \<Rightarrow> string \<Rightarrow> string \<Rightarrow> exn + (string \<times> string) list list"
  parler_load :: "nat \<Rightarrow> exn + handle"
  tokenizer_load :: "nat \<Rightarrow> exn + handle"
  desc_tokenizer_load :: "nat \<Rightarrow> handle \<Rightarrow> exn + handle"
  parler_generate :: "nat \<Rightarrow> handle \<Rightarrow> string \<Rightarrow> string \<Rightarrow> exn + real list"
  engine_init :: "nat \<Rightarrow> exn + handle"
  engine_set_property :: "nat \<Rightarrow> handle \<Rightarrow> string \<Rightarrow> string \<Rightarrow> exn + unit"
  engine_say :: "nat \<Rightarrow> handle \<Rightarrow> string \<Rightarrow> exn + unit"
  engine_run :: "nat \<Rightarrow> handle \<Rightarrow> exn + unit"
  open_read :: "nat \<Rightarrow> string \<Rightarrow> exn + unit"
  open_write :: "nat \<Rightarrow> string \<Rightarrow> exn + unit"
  json_dump :: "nat \<Rightarrow> json \<Rightarrow> exn + unit"
  perf_counter :: "nat \<Rightarrow> real"
  rss :: "nat \<Rightarrow> real"
  cpu_times :: "nat \<Rightarrow> real \<times> real"
  cpu_count :: "nat option"
  parler_rate :: real
  utcnow :: "nat \<Rightarrow> string"

text \<open>
  A \<open>world\<close> fixes what every library call returns or raises when it is made at a given
  moment (the first argument) with given arguments. The code of the repository is a
  function of the world; nothing is assumed about it.
\<close>

section \<open>utils/audio.py\<close>

definition band_edges :: "real \<Rightarrow> real \<Rightarrow> real \<Rightarrow> exn + (real \<times> real)" where
  \<comment> \<open>The list \<open>[low, high]\<close> that \<open>butter_bandpass\<close> hands to \<open>butter\<close>. Floating-point
      numbers are modelled as reals.\<close>
  "band_edges lowcut highcut fs =
     (let nyq = (1/2) * fs
      in if nyq = 0 then Inl ZeroDivisionError
         else Inr (max (lowcut / nyq) (1 / 1000000), min (highcut / nyq) (999 / 1000)))"

definition butter_bandpass ::
  "world \<Rightarrow> real \<Rightarrow> real \<Rightarrow> real \<Rightarrow> nat \<Rightarrow> exn + (real list \<times> real list)" where
  "butter_bandpass w lowcut highcut fs order =
     (case band_edges lowcut highcut fs of
        Inl e \<Rightarrow> Inl e
      | Inr (low, high) \<Rightarrow> butter w order low high)"

definition bandpass_filter ::
  "world \<Rightarrow> real list \<Rightarrow> real \<Rightarrow> real \<Rightarrow> real \<Rightarrow> nat \<Rightarrow> exn + real list" where
  "bandpass_filter w data lowcut highcut fs order =
     (case butter_bandpass w lowcut highcut fs order of
        Inl e \<Rightarrow> Inl e
      | Inr ba \<Rightarrow> Inr (lfilter w ba data))"

definition py_int :: "real \<Rightarrow> int" where
  \<comment> \<open>\<open>int(x)\<close> truncates towards zero.\<close>
  "py_int x = (if 0 \<le> x then \<lfloor>x\<rfloor> else \<lceil>x\<rceil>)"

definition liftE :: "exn + 'a \<Rightarrow> 'a prog" where
  "liftE r = (\<lambda>s. (r, s))"

definition write_wav :: "world \<Rightarrow> string \<Rightarrow> real list \<Rightarrow> real \<Rightarrow> unit prog" where
  \<comment> \<open>\<open>sf.write(filename, data, fs)\<close>\<close>
  "write_wav w filename data fs =
     bindE (lib (SfWrite filename) (\<lambda>t. sf_write w t filename)) (\<lambda>_.
     modifyE (\<lambda>s. s\<lparr>files := (files s)(filename \<mapsto> Wav data fs)\<rparr>))"

definition record_audio :: "world \<Rightarrow> real \<Rightarrow> real \<Rightarrow> string \<Rightarrow> bool \<Rightarrow> string prog" where
  "record_audio w duration fs filename playback =
     bindE (lib (SdRec (py_int (duration * fs)) fs)
              (\<lambda>t. sd_rec w t (py_int (duration * fs)) fs)) (\<lambda>data.
     let raw = concat data in
     bindE (liftE (bandpass_filter w raw 80 7900 fs 4)) (\<lambda>filtered.
     bindE (if playback then lib SdPlay (sd_play w) else returnE ()) (\<lambda>_.
     bindE (write_wav w filename filtered fs) (\<lambda>_.
     returnE filename))))"

definition play_beep :: "world \<Rightarrow> unit prog" where
  "play_beep w = lib SdPlay (sd_play w)"

definition play_wav :: "world \<Rightarrow> string \<Rightarrow> unit prog" where
  "play_wav w filename =
     tryE
       (bindE (getE (\<lambda>s. files s filename)) (\<lambda>d.
        bindE (lib (SfRead filename) (\<lambda>t. sf_read w t d)) (\<lambda>_.
        lib SdPlay (sd_play w))))
       (\<lambda>e. returnE ())"


section \<open>utils/system.py\<close>

definition device :: string where
  "device = ''cpu''"

section \<open>models/asr.py\<close>

definition get_whisper_model :: "world \<Rightarrow> handle prog" where
  "get_whisper_model w =
     bindE (getE whisper_model_g) (\<lambda>g.
     case g of
       Some m \<Rightarrow> returnE m
     | None \<Rightarrow>
         bindE (lib WhisperLoad (whisper_load w)) (\<lambda>m.
         bindE (modifyE (\<lambda>s. s\<lparr>whisper_model_g := Some m\<rparr>)) (\<lambda>_.
         returnE m)))"

definition get_indic_model :: "world \<Rightarrow> handle prog" where
  "get_indic_model w =
     bindE (getE indic_model_g) (\<lambda>g.
     case g of
       Some m \<Rightarrow> returnE m
     | None \<Rightarrow>
         bindE (lib IndicLoad (indic_load w)) (\<lambda>m.
         bindE (modifyE (\<lambda>s. s\<lparr>indic_model_g := Some m\<rparr>)) (\<lambda>_.
         returnE m)))"

fun max_key :: "(string \<times> real) list \<Rightarrow> exn + string" where
  \<comment> \<open>\<open>max(probs, key=probs.get)\<close>: the first key of greatest value; \<open>ValueError\<close> on
      an empty dictionary. The list holds the items of the dictionary in its order.\<close>
  "max_key [] = Inl ValueError"
| "max_key ((k, v) # rest) =
     Inr (fst (foldl (\<lambda>(bk, bv) (k', v'). if bv < v' then (k', v') else (bk, bv)) (k, v) rest))"

definition detect_input_language_whisper ::
  "world \<Rightarrow> string \<Rightarrow> handle \<Rightarrow> (string \<times> string \<times> bool) prog" where
  "detect_input_language_whisper w audio_path model =
     bindE (getE (\<lambda>s. files s audio_path)) (\<lambda>audio.
     bindE (lib (WhisperDetect audio_path) (\<lambda>t. whisper_detect w t model audio)) (\<lambda>probs.
     bindE (liftE (max_key probs)) (\<lambda>detected_code.
     let is_indian = dict_contains INDIAN_LANG_MAP (Some detected_code);
         lang_name = dict_get INDIAN_LANG_MAP (Some detected_code) ''International''
     in returnE (detected_code, lang_name, is_indian))))"

definition whisper_transcribe :: "world \<Rightarrow> string \<Rightarrow> handle \<Rightarrow> string prog" where
  "whisper_transcribe w audio_path model =
     bindE (getE (\<lambda>s. files s audio_path)) (\<lambda>audio.
     lib (WhisperDecode audio_path) (\<lambda>t. whisper_decode w t model audio))"

definition indic_transcribe :: "world \<Rightarrow> string \<Rightarrow> string \<Rightarrow> string prog" where
  "indic_transcribe w audio_path lang_code =
     bindE (get_indic_model w) (\<lambda>indic_model.
     bindE (getE (\<lambda>s. files s audio_path)) (\<lambda>audio.
     bindE (lib (IndicCall audio_path lang_code)
              (\<lambda>t. indic_call w t indic_model audio lang_code)) (\<lambda>transcription.
     case transcription of
       IndicStr text \<Rightarrow> returnE text
     | IndicSeq [] \<Rightarrow> raiseE IndexError
     | IndicSeq (text # _) \<Rightarrow> returnE text)))"

definition transcribe_audio :: "world \<Rightarrow> string \<Rightarrow> string prog" where
  "transcribe_audio w audio_path =
     bindE (get_whisper_model w) (\<lambda>whisper_model.
     bindE (detect_input_language_whisper w audio_path whisper_model)
       (\<lambda>(lang_code, lang_name, is_indic).
     if is_indic then indic_transcribe w audio_path lang_code
     else whisper_transcribe w audio_path whisper_model))"

function str_of_nat :: "nat \<Rightarrow> string" where
  \<comment> \<open>the decimal digits of a number, as an f-string prints it\<close>
  "str_of_nat n =
     (if n < 10 then [char_of (48 + n)] else str_of_nat (n div 10) @ [char_of (48 + n mod 10)])"
  by pat_completeness auto
termination
  by (relation "measure (\<lambda>n. n)") auto

declare str_of_nat.simps [simp del]

definition detect_target_language_manually ::
  "world \<Rightarrow> (string option \<times> string option) prog" where
  \<comment> \<open>The suggestions computed after a failed match are only printed.\<close>
  "detect_target_language_manually w =
     bindE (lib Input (user_input w)) (\<lambda>line.
     let typed_input = str_strip line in
     bindE (liftE (get_language_code (get_close_matches w) typed_input)) (\<lambda>(code, name).
     if py_truthy code then returnE (code, name) else returnE (None, None)))"

fun voice_attempts ::
  "world \<Rightarrow> handle \<Rightarrow> nat \<Rightarrow> nat \<Rightarrow> (string option \<times> string option) prog" where
  \<comment> \<open>The loop \<open>for attempt in range(attempts)\<close> from \<open>attempt\<close> on, with \<open>n\<close> rounds
      left.\<close>
  "voice_attempts w whisper_model attempt 0 = returnE (None, None)"
| "voice_attempts w whisper_model attempt (Suc n) =
     bindE (record_audio w (7/4) 16000
              (''target_attempt_'' @ str_of_nat (attempt + 1) @ ''.wav'') False) (\<lambda>file_path.
     bindE (getE (\<lambda>s. files s file_path)) (\<lambda>audio.
     bindE (lib (WhisperDecode file_path) (\<lambda>t. whisper_decode w t whisper_model audio))
       (\<lambda>text.
     let spoken = str_strip text in
     bindE (liftE (get_language_code (get_close_matches w) spoken)) (\<lambda>(lang_code, lang_name).
     if py_truthy lang_code then returnE (lang_code, lang_name)
     else voice_attempts w whisper_model (Suc attempt) n))))"

definition detect_target_language_by_voice ::
  "world \<Rightarrow> nat \<Rightarrow> (string option \<times> string option) prog" where
  "detect_target_language_by_voice w attempts =
     bindE (get_whisper_model w) (\<lambda>whisper_model.
     voice_attempts w whisper_model 0 attempts)"

definition get_target_language :: "world \<Rightarrow> (string option \<times> string option) prog" where
  "get_target_language w =
     bindE (detect_target_language_by_voice w 2) (\<lambda>(code, name).
     if \<not> py_truthy code then detect_target_language_manually w
     else returnE (code, name))"

section \<open>models/translation.py\<close>

definition get_nllb_pipeline :: "world \<Rightarrow> handle prog" where
  "get_nllb_pipeline w =
     bindE (getE nllb_pipeline_g) (\<lambda>g.
     case g of
       Some p \<Rightarrow> returnE p
     | None \<Rightarrow>
         bindE (lib NllbLoad (nllb_load w)) (\<lambda>p.
         bindE (modifyE (\<lambda>s. s\<lparr>nllb_pipeline_g := Some p\<rparr>)) (\<lambda>_.
         bindE (if device = ''cpu''
                then bindE (lib NllbSetEngine (nllb_set_engine w)) (\<lambda>_.
                     tryE (lib NllbQuantize (\<lambda>t. nllb_quantize w t p)) (\<lambda>e. returnE ()))
                else returnE ()) (\<lambda>_.
         returnE p))))"

definition str_blank :: "string option \<Rightarrow> bool" where
  \<comment> \<open>\<open>not text or not text.strip()\<close>\<close>
  "str_blank text = (case text of None \<Rightarrow> True | Some s \<Rightarrow> s = [] \<or> str_strip s = [])"

definition translate_with_nllb ::
  "world \<Rightarrow> string option \<Rightarrow> string option \<Rightarrow> string option \<Rightarrow> string option prog" where
  "translate_with_nllb w text src_lang_code tgt_lang_code =
     (case text of
        None \<Rightarrow> returnE None
      | Some txt \<Rightarrow>
          if str_blank (Some txt) then returnE None
          else
            tryE
              (bindE (get_nllb_pipeline w) (\<lambda>nllb.
               let src_nllb = dict_get NLLB_LANG_CODE_MAP src_lang_code ''eng_Latn'';
                   tgt_nllb = dict_get NLLB_LANG_CODE_MAP tgt_lang_code ''eng_Latn''
               in
               bindE (lib (NllbCall txt src_nllb tgt_nllb)
                        (\<lambda>t. nllb_call w t nllb txt src_nllb tgt_nllb)) (\<lambda>translated.
               case translated of
                 [] \<Rightarrow> raiseE IndexError
               | d # _ \<Rightarrow>
                   (case map_of d ''translation_text'' of
                      None \<Rightarrow> raiseE KeyError
                    | Some t \<Rightarrow> returnE (Some t)))))
              (\<lambda>e. returnE None))"

section \<open>models/tts.py\<close>

definition load_parler_tts ::
  "world \<Rightarrow> (handle option \<times> handle option \<times> handle option) prog" where
  \<comment> \<open>Each global is assigned as soon as its object is made. Setting the pad tokens
      changes the tokenizer objects, not the globals.\<close>
  "load_parler_tts w =
     bindE (getE parler_model_g) (\<lambda>g.
     bindE (case g of
              Some m \<Rightarrow> returnE ()
            | None \<Rightarrow>
                bindE (lib ParlerLoad (parler_load w)) (\<lambda>m.
                bindE (modifyE (\<lambda>s. s\<lparr>parler_model_g := Some m\<rparr>)) (\<lambda>_.
                bindE (lib TokenizerLoad (tokenizer_load w)) (\<lambda>tk.
                bindE (modifyE (\<lambda>s. s\<lparr>tokenizer_g := Some tk\<rparr>)) (\<lambda>_.
                bindE (lib DescTokenizerLoad (\<lambda>t. desc_tokenizer_load w t m)) (\<lambda>dt.
                modifyE (\<lambda>s. s\<lparr>desc_tokenizer_g := Some dt\<rparr>))))))) (\<lambda>_.
     getE (\<lambda>s. (parler_model_g s, tokenizer_g s, desc_tokenizer_g s))))"

definition get_tts_engine :: "world \<Rightarrow> handle prog" where
  "get_tts_engine w =
     bindE (getE engine_g) (\<lambda>g.
     case g of
       Some e \<Rightarrow> returnE e
     | None \<Rightarrow>
         bindE (lib EngineInit (engine_init w)) (\<lambda>e.
         bindE (modifyE (\<lambda>s. s\<lparr>engine_g := Some e\<rparr>)) (\<lambda>_.
         bindE (lib (EngineSetProperty ''rate'' ''180'')
                  (\<lambda>t. engine_set_property w t e ''rate'' ''180'')) (\<lambda>_.
         bindE (lib (EngineSetProperty ''volume'' ''1.0'')
                  (\<lambda>t. engine_set_property w t e ''volume'' ''1.0'')) (\<lambda>_.
         returnE e)))))"

definition LANG_VOICE_MAP :: "(string \<times> string) list" where
  "LANG_VOICE_MAP =
     [(''en'', ''com.apple.voice.compact.en-US.Samantha''),
      (''es'', ''com.apple.voice.compact.es-ES.Monica''),
      (''fr'', ''com.apple.voice.compact.fr-FR.Thomas''),
      (''zh'', ''com.apple.voice.compact.zh-CN.Tingting''),
      (''ar'', ''com.apple.voice.compact.ar-001.Maged''),
      (''pt'', ''com.apple.voice.compact.pt-BR.Luciana''),
      (''ru'', ''com.apple.voice.compact.ru-RU.Milena''),
      (''ja'', ''com.apple.voice.compact.ja-JP.Kyoko''),
      (''de'', ''com.apple.voice.compact.de-DE.Anna'')]"

definition generate_speech :: "world \<Rightarrow> string option \<Rightarrow> string \<Rightarrow> string \<Rightarrow> unit prog" where
  \<comment> \<open>The two tokenizer calls and \<open>model.generate\<close> are one library call. A missing
      tokenizer or model is \<open>None\<close>, and calling it raises \<open>TypeError\<close>.\<close>
  "generate_speech w prompt description output_file =
     (case prompt of
        None \<Rightarrow> returnE ()
      | Some txt \<Rightarrow>
          if str_blank (Some txt) then returnE ()
          else
            tryE
              (bindE (load_parler_tts w) (\<lambda>(model, tokenizer, desc_tokenizer).
               case (model, tokenizer, desc_tokenizer) of
                 (Some m, Some tk, Some dt) \<Rightarrow>
                   bindE (lib (ParlerGenerate description txt)
                            (\<lambda>t. parler_generate w t m description txt)) (\<lambda>audio_arr.
                   if audio_arr = [] \<or> (\<forall>x \<in> set audio_arr. x = 0) then returnE ()
                   else
                     bindE (write_wav w output_file audio_arr (parler_rate w)) (\<lambda>_.
                     play_wav w output_file))
               | _ \<Rightarrow> raiseE (OtherError ''TypeError'')))
              (\<lambda>e. returnE ()))"

definition play_tts_output ::
  "world \<Rightarrow> string option \<Rightarrow> string \<Rightarrow> string option \<Rightarrow> unit prog" where
  "play_tts_output w text lang_type tgt_lang_code =
     (case text of
        None \<Rightarrow> returnE ()
      | Some txt \<Rightarrow>
          if str_blank (Some txt) then returnE ()
          else if lang_type = ''indian'' then
            generate_speech w (Some txt)
              ''A calm voice with natural pace, clarity and stability.'' ''output_indic.wav''
          else
            bindE (get_tts_engine w) (\<lambda>engine.
            bindE (liftE (case map_of LANG_VOICE_MAP ''en'' of
                            None \<Rightarrow> Inl KeyError
                          | Some v \<Rightarrow> Inr (dict_get LANG_VOICE_MAP tgt_lang_code v)))
              (\<lambda>voice_id.
            bindE (lib (EngineSetProperty ''voice'' voice_id)
                     (\<lambda>t. engine_set_property w t engine ''voice'' voice_id)) (\<lambda>_.
            bindE (lib (EngineSay txt) (\<lambda>t. engine_say w t engine txt)) (\<lambda>_.
            lib EngineRunAndWait (\<lambda>t. engine_run w t engine))))))"


section \<open>run_pipeline.py\<close>

definition json_load :: "file_data \<Rightarrow> exn + json" where
  \<comment> \<open>\<open>json.load(f)\<close> on an open file. Undecodable bytes raise \<open>UnicodeDecodeError\<close>,
      which is not a \<open>JSONDecodeError\<close>.\<close>
  "json_load d =
     (case d of
        JsonText v \<Rightarrow> Inr v
      | BadText \<Rightarrow> Inl JSONDecodeError
      | Binary \<Rightarrow> Inl (OtherError ''UnicodeDecodeError'')
      | Wav _ _ \<Rightarrow> Inl (OtherError ''UnicodeDecodeError''))"

definition read_existing :: "world \<Rightarrow> string \<Rightarrow> json list prog" where
  \<comment> \<open>lines 155 to 164: the list to append to\<close>
  "read_existing w output_log =
     bindE (getE (\<lambda>s. files s output_log)) (\<lambda>d.
     case d of
       None \<Rightarrow> returnE []
     | Some fd \<Rightarrow>
         bindE (lib (OpenRead output_log) (\<lambda>t. open_read w t output_log)) (\<lambda>_.
         case json_load fd of
           Inr (JList xs) \<Rightarrow> returnE xs
         | Inr _ \<Rightarrow> returnE []
         | Inl e \<Rightarrow> if e = JSONDecodeError then returnE [] else raiseE e))"

definition update_log :: "world \<Rightarrow> string \<Rightarrow> json \<Rightarrow> unit prog" where
  \<comment> \<open>lines 153 to 173. Opening a file for writing empties it; a dump that raises
      leaves part of the text behind, which is not a JSON document.\<close>
  "update_log w output_log evaluation_entry =
     tryE
       (bindE (read_existing w output_log) (\<lambda>existing.
        let existing = existing @ [evaluation_entry] in
        bindE (lib (OpenWrite output_log) (\<lambda>t. open_write w t output_log)) (\<lambda>_.
        bindE (modifyE (\<lambda>s. s\<lparr>files := (files s)(output_log \<mapsto> BadText)\<rparr>)) (\<lambda>_.
        bindE (lib (JsonDump output_log) (\<lambda>t. json_dump w t (JList existing))) (\<lambda>_.
        modifyE (\<lambda>s. s\<lparr>files := (files s)(output_log \<mapsto> JsonText (JList existing))\<rparr>))))))
       (\<lambda>e. returnE ())"

definition now :: "world \<Rightarrow> real prog" where
  \<comment> \<open>\<open>perf_counter()\<close>\<close>
  "now w = getE (\<lambda>s. perf_counter w (clock s))"

definition mem :: "world \<Rightarrow> real prog" where
  \<comment> \<open>\<open>process.memory_info().rss\<close>\<close>
  "mem w = getE (\<lambda>s. rss w (clock s))"

definition json_opt :: "string option \<Rightarrow> json" where
  "json_opt v = (case v of None \<Rightarrow> JNull | Some x \<Rightarrow> JStr x)"

definition run_voice2voice_evaluation :: "world \<Rightarrow> real \<Rightarrow> string \<Rightarrow> json prog" where
  "run_voice2voice_evaluation w duration output_log =
     bindE (now w) (\<lambda>start_total.
     bindE (getE (\<lambda>s. cpu_times w (clock s))) (\<lambda>cpu_times_start.
     bindE (mem w) (\<lambda>rss_start.
     let peak_rss = rss_start in
     bindE (play_beep w) (\<lambda>_.
     bindE (now w) (\<lambda>t0.
     bindE (mark (Phase 1)) (\<lambda>_.
     bindE (record_audio w duration 16000 ''input.wav'' False) (\<lambda>audio_path.
     bindE (now w) (\<lambda>t1.
     let recording_time_sec = t1 - t0 in
     bindE (mem w) (\<lambda>r.
     let peak_rss = max peak_rss r in
     bindE (now w) (\<lambda>t0.
     bindE (mark (Phase 2)) (\<lambda>_.
     bindE (transcribe_audio w audio_path) (\<lambda>transcription.
     bindE (now w) (\<lambda>t1.
     let asr_time_sec = t1 - t0 in
     bindE (mem w) (\<lambda>r.
     let peak_rss = max peak_rss r in
     bindE (play_beep w) (\<lambda>_.
     bindE (now w) (\<lambda>t0.
     bindE (mark (Phase 3)) (\<lambda>_.
     bindE (get_target_language w) (\<lambda>(tgt_lang_code, tgt_lang_name).
     bindE (now w) (\<lambda>t1.
     let target_lang_selection_sec = t1 - t0 in
     bindE (mem w) (\<lambda>r.
     let peak_rss = max peak_rss r in
     bindE (now w) (\<lambda>t0.
     bindE (mark (Phase 4)) (\<lambda>_.
     bindE (translate_with_nllb w (Some transcription) None tgt_lang_code)
       (\<lambda>translated_text.
     bindE (now w) (\<lambda>t1.
     let translation_time_sec = t1 - t0 in
     bindE (mem w) (\<lambda>r.
     let peak_rss = max peak_rss r in
     bindE (now w) (\<lambda>t0.
     let lang_type = (if dict_contains INDIAN_LANG_MAP tgt_lang_code
                      then ''indian'' else ''international'') in
     bindE (mark (Phase 5)) (\<lambda>_.
     bindE (play_tts_output w translated_text lang_type tgt_lang_code) (\<lambda>_.
     bindE (now w) (\<lambda>t1.
     let tts_time_sec = t1 - t0 in
     bindE (mem w) (\<lambda>r.
     let peak_rss = max peak_rss r in
     bindE (now w) (\<lambda>t_end.
     let total_runtime = t_end - start_total in
     bindE (getE (\<lambda>s. cpu_times w (clock s))) (\<lambda>cpu_times_end.
     let cpu_time_used = (fst cpu_times_end + snd cpu_times_end)
                           - (fst cpu_times_start + snd cpu_times_start);
         avg_cores_used = (if 0 < total_runtime then cpu_time_used / total_runtime else 0);
         normalized_percent =
           (case cpu_count w of
              None \<Rightarrow> 0
            | Some num_cores \<Rightarrow>
                if num_cores \<noteq> 0 then (avg_cores_used / real num_cores) * 100 else 0);
         peak_ram_mb = peak_rss / (1024 * 1024)
     in
     bindE (getE (\<lambda>s. utcnow w (clock s))) (\<lambda>timestamp.
     let evaluation_entry =
           JObj [(''timestamp'', JStr timestamp),
                 (''device'', JStr device),
                 (''timings'',
                    JObj [(''recording_time_sec'', JNum recording_time_sec),
                          (''asr_time_sec'', JNum asr_time_sec),
                          (''target_lang_selection_sec'', JNum target_lang_selection_sec),
                          (''translation_time_sec'', JNum translation_time_sec),
                          (''tts_time_sec'', JNum tts_time_sec),
                          (''total_pipeline_time_sec'', JNum total_runtime)]),
                 (''outputs'',
                    JObj [(''transcription'', JStr transcription),
                          (''target_language'',
                             JObj [(''code'', json_opt tgt_lang_code),
                                   (''name'', json_opt tgt_lang_name)]),
                          (''translation'', json_opt translated_text)]),
                 (''system_metrics'',
                    JObj [(''avg_cores_used'', JNum avg_cores_used),
                          (''normalized_cpu_percent'', JNum normalized_percent),
                          (''peak_ram_usage_mb'', JNum peak_ram_mb)])]
     in
     bindE (update_log w output_log evaluation_entry) (\<lambda>_.
     returnE evaluation_entry))))))))))))))))))))))))))))))))))"


section \<open>A world for examples\<close>

text \<open>
  In \<open>w_ok\<close> every library call returns: the microphone gives two samples, Whisper
  detects English and hears the word ``hindi'', and the translation is ``namaste''.
  The other example worlds change one library each. \<open>s0\<close> is a fresh process with no
  files.
\<close>

definition w_ok :: world where
  "w_ok = \<lparr>
     sd_play = (\<lambda>t. Inr ()),
     sd_rec = (\<lambda>t n fs. Inr [[1/2], [1/4]]),
     sf_write = (\<lambda>t f. Inr ()),
     sf_read = (\<lambda>t d. Inr ()),
     butter = (\<lambda>order low high. Inr ([low], [high])),
     lfilter = (\<lambda>ba x. x),
     get_close_matches = exact_matches,
     whisper_load = (\<lambda>t. Inr 1),
     whisper_detect = (\<lambda>t h a. Inr [(''en'', 3/4), (''hi'', 1/4)]),
     whisper_decode = (\<lambda>t h a. Inr ''hindi''),
     indic_load = (\<lambda>t. Inr 2),
     indic_call = (\<lambda>t h a l. Inr (IndicSeq [''namaste''])),
     user_input = (\<lambda>t. Inr ''hindi''),
     nllb_load = (\<lambda>t. Inr 3),
     nllb_set_engine = (\<lambda>t. Inr ()),
     nllb_quantize = (\<lambda>t h. Inr ()),
     nllb_call = (\<lambda>t h txt src tgt. Inr [[(''translation_text'', ''namaste'')]]),
     parler_load = (\<lambda>t. Inr 4),
     tokenizer_load = (\<lambda>t. Inr 5),
     desc_tokenizer_load = (\<lambda>t h. Inr 6),
     parler_generate = (\<lambda>t h d p. Inr [1/8, -1/8]),
     engine_init = (\<lambda>t. Inr 7),
     engine_set_property = (\<lambda>t h n v. Inr ()),
     engine_say = (\<lambda>t h txt. Inr ()),
     engine_run = (\<lambda>t h. Inr ()),
     open_read = (\<lambda>t p. Inr ()),
     open_write = (\<lambda>t p. Inr ()),
     json_dump = (\<lambda>t v. Inr ()),
     perf_counter = (\<lambda>t. real t),
     rss = (\<lambda>t. 1048576),
     cpu_times = (\<lambda>t. (real t / 2, 0)),
     cpu_count = Some 4,
     parler_rate = 44100,
     utcnow = (\<lambda>t. ''2026-01-01T00:00:00'')
   \<rparr>"

definition s0 :: proc where
  "s0 = \<lparr>whisper_model_g = None, indic_model_g = None, nllb_pipeline_g = None,
          parler_model_g = None, tokenizer_g = None, desc_tokenizer_g = None,
          engine_g = None, files = (\<lambda>p. None), clock = 0, trace = []\<rparr>"


definition w_indic :: world where
  \<comment> \<open>Whisper detects Hindi, so the recording goes to IndicConformer.\<close>
  "w_indic = w_ok\<lparr>whisper_detect := (\<lambda>t h a. Inr [(''hi'', 9/10), (''en'', 1/10)])\<rparr>"

section \<open>Frame relations\<close>

definition keeps :: "(proc \<Rightarrow> proc \<Rightarrow> bool) \<Rightarrow> 'a prog \<Rightarrow> bool" where
  "keeps R m = (\<forall>s r s'. m s = (r, s') \<longrightarrow> R s s')"

definition preorder_on_proc :: "(proc \<Rightarrow> proc \<Rightarrow> bool) \<Rightarrow> bool" where
  "preorder_on_proc R = ((\<forall>s. R s s) \<and> (\<forall>a b c. R a b \<longrightarrow> R b c \<longrightarrow> R a c))"

definition emits :: "(event \<Rightarrow> bool) \<Rightarrow> proc \<Rightarrow> proc \<Rightarrow> bool" where
  "emits P s s' = (\<exists>evs. trace s' = trace s @ evs \<and> list_all P evs)"


definition new_events :: "proc \<Rightarrow> proc \<Rightarrow> event list" where
  "new_events s s' = drop (length (trace s)) (trace s')"

definition plain :: "event \<Rightarrow> bool" where
  "plain e = (case e of Phase _ \<Rightarrow> False | NllbCall _ _ _ \<Rightarrow> False | _ \<Rightarrow> True)"


definition w_nllb_down :: world where
  \<comment> \<open>The NLLB model raises on every call.\<close>
  "w_nllb_down = w_ok\<lparr>nllb_call := (\<lambda>t h tx src tgt. Inl (OtherError ''RuntimeError''))\<rparr>"










definition phase_events :: "event list \<Rightarrow> nat list" where
  \<comment> \<open>the phases entered, in order\<close>
  "phase_events evs = concat (map (\<lambda>e. case e of Phase n \<Rightarrow> [n] | _ \<Rightarrow> []) evs)"





section \<open>Properties\<close>

lemmas prog_defs = returnE_def raiseE_def bindE_def tryE_def getE_def modifyE_def lib_def
  mark_def liftE_def

lemma keepsD: "keeps R m \<Longrightarrow> m s = (r, s') \<Longrightarrow> R s s'"
  by (auto simp: keeps_def)

lemma emits_new_events: "emits P s s' \<Longrightarrow> trace s' = trace s @ new_events s s' \<and> list_all P (new_events s s')"
  by (auto simp: emits_def new_events_def)

lemma pre_emits: "preorder_on_proc (emits P)"
  by (auto simp: preorder_on_proc_def emits_def)


lemma keeps_returnE: "preorder_on_proc R \<Longrightarrow> keeps R (returnE x)"
  by (auto simp: keeps_def preorder_on_proc_def returnE_def)

lemma keeps_raiseE: "preorder_on_proc R \<Longrightarrow> keeps R (raiseE x)"
  by (auto simp: keeps_def preorder_on_proc_def raiseE_def)

lemma keeps_getE: "preorder_on_proc R \<Longrightarrow> keeps R (getE x)"
  by (auto simp: keeps_def preorder_on_proc_def getE_def)

lemma keeps_liftE: "preorder_on_proc R \<Longrightarrow> keeps R (liftE x)"
  by (auto simp: keeps_def preorder_on_proc_def liftE_def)

lemma keeps_bindE:
  "preorder_on_proc R \<Longrightarrow> keeps R m \<Longrightarrow> (\<And>x. keeps R (f x)) \<Longrightarrow> keeps R (bindE m f)"
  unfolding keeps_def preorder_on_proc_def bindE_def
  by (auto split: prod.splits sum.splits) blast+

lemma keeps_tryE:
  "preorder_on_proc R \<Longrightarrow> keeps R m \<Longrightarrow> (\<And>x. keeps R (f x)) \<Longrightarrow> keeps R (tryE m f)"
  unfolding keeps_def preorder_on_proc_def tryE_def
  by (auto split: prod.splits sum.splits) blast+

lemma keeps_if: "keeps R a \<Longrightarrow> keeps R b \<Longrightarrow> keeps R (if c then a else b)"
  by simp

lemma keeps_let: "keeps R (f v) \<Longrightarrow> keeps R (let x = v in f x)"
  by simp

lemma keeps_case_option:
  "keeps R a \<Longrightarrow> (\<And>x. keeps R (f x)) \<Longrightarrow> keeps R (case v of None \<Rightarrow> a | Some x \<Rightarrow> f x)"
  by (cases v) auto

lemma keeps_case_prod:
  "(\<And>x y. keeps R (f x y)) \<Longrightarrow> keeps R (case v of (x, y) \<Rightarrow> f x y)"
  by (cases v) auto

lemma keeps_case_list:
  "keeps R a \<Longrightarrow> (\<And>x xs. keeps R (f x xs)) \<Longrightarrow> keeps R (case v of [] \<Rightarrow> a | x # xs \<Rightarrow> f x xs)"
  by (cases v) auto

lemma keeps_case_sum:
  "(\<And>x. keeps R (f x)) \<Longrightarrow> (\<And>x. keeps R (g x)) \<Longrightarrow> keeps R (case v of Inl x \<Rightarrow> f x | Inr x \<Rightarrow> g x)"
  by (cases v) auto

lemma keeps_case_indic:
  "(\<And>x. keeps R (f x)) \<Longrightarrow> (\<And>x. keeps R (g x)) \<Longrightarrow>
   keeps R (case v of IndicStr x \<Rightarrow> f x | IndicSeq x \<Rightarrow> g x)"
  by (cases v) auto

lemma keeps_case_json:
  "keeps R a \<Longrightarrow> (\<And>x. keeps R (b x)) \<Longrightarrow> (\<And>x. keeps R (c x)) \<Longrightarrow> (\<And>x. keeps R (d x)) \<Longrightarrow>
   (\<And>x. keeps R (e x)) \<Longrightarrow> (\<And>x. keeps R (f x)) \<Longrightarrow>
   keeps R (case v of JNull \<Rightarrow> a | JBool x \<Rightarrow> b x | JNum x \<Rightarrow> c x | JStr x \<Rightarrow> d x
            | JList x \<Rightarrow> e x | JObj x \<Rightarrow> f x)"
  by (cases v) auto

lemma keeps_emits_lib: "P ev \<Longrightarrow> keeps (emits P) (lib ev out)"
  by (auto simp: keeps_def emits_def lib_def)

lemma keeps_emits_mark: "P ev \<Longrightarrow> keeps (emits P) (mark ev)"
  by (auto simp: keeps_def emits_def mark_def modifyE_def)

lemma keeps_emits_modifyE: "(\<And>s. trace (g s) = trace s) \<Longrightarrow> keeps (emits P) (modifyE g)"
  by (auto simp: keeps_def emits_def modifyE_def)




lemmas keeps_intros = keeps_returnE keeps_raiseE keeps_getE keeps_liftE keeps_bindE keeps_tryE
  keeps_if keeps_let keeps_case_option keeps_case_prod keeps_case_list keeps_case_sum
  keeps_case_indic keeps_case_json

lemmas emits_intros = keeps_intros pre_emits keeps_emits_lib keeps_emits_mark keeps_emits_modifyE

lemma record_audio_emits:
  "(\<And>e. plain e \<Longrightarrow> P e) \<Longrightarrow> keeps (emits P) (record_audio w duration fs filename playback)"
  unfolding record_audio_def write_wav_def
  by (intro emits_intros) (auto simp: plain_def)

lemma play_beep_emits: "(\<And>e. plain e \<Longrightarrow> P e) \<Longrightarrow> keeps (emits P) (play_beep w)"
  unfolding play_beep_def by (intro emits_intros) (auto simp: plain_def)

lemma play_wav_emits: "(\<And>e. plain e \<Longrightarrow> P e) \<Longrightarrow> keeps (emits P) (play_wav w f)"
  unfolding play_wav_def by (intro emits_intros) (auto simp: plain_def)

lemma get_whisper_model_emits: "(\<And>e. plain e \<Longrightarrow> P e) \<Longrightarrow> keeps (emits P) (get_whisper_model w)"
  unfolding get_whisper_model_def by (intro emits_intros) (auto simp: plain_def)

lemma get_indic_model_emits: "(\<And>e. plain e \<Longrightarrow> P e) \<Longrightarrow> keeps (emits P) (get_indic_model w)"
  unfolding get_indic_model_def by (intro emits_intros) (auto simp: plain_def)

lemma transcribe_audio_emits: "(\<And>e. plain e \<Longrightarrow> P e) \<Longrightarrow> keeps (emits P) (transcribe_audio w p)"
  unfolding transcribe_audio_def detect_input_language_whisper_def whisper_transcribe_def
    indic_transcribe_def
  by (intro emits_intros get_whisper_model_emits get_indic_model_emits) (auto simp: plain_def)

lemma manual_emits: "(\<And>e. plain e \<Longrightarrow> P e) \<Longrightarrow> keeps (emits P) (detect_target_language_manually w)"
  unfolding detect_target_language_manually_def
  by (intro emits_intros) (auto simp: plain_def)

lemma voice_attempts_emits:
  "(\<And>e. plain e \<Longrightarrow> P e) \<Longrightarrow> keeps (emits P) (voice_attempts w m a n)"
proof (induction n arbitrary: a)
  case 0
  then show ?case by (simp add: keeps_returnE pre_emits)
next
  case (Suc n)
  show ?case
    unfolding voice_attempts.simps
    by (intro emits_intros record_audio_emits Suc) (auto simp: plain_def Suc.prems)
qed

lemma get_target_language_emits: "(\<And>e. plain e \<Longrightarrow> P e) \<Longrightarrow> keeps (emits P) (get_target_language w)"
  unfolding get_target_language_def detect_target_language_by_voice_def
  by (intro emits_intros get_whisper_model_emits voice_attempts_emits manual_emits) auto

lemma get_nllb_pipeline_emits: "(\<And>e. plain e \<Longrightarrow> P e) \<Longrightarrow> keeps (emits P) (get_nllb_pipeline w)"
  unfolding get_nllb_pipeline_def by (intro emits_intros) (auto simp: plain_def)

lemma translate_emits:
  "(\<And>e. plain e \<Longrightarrow> P e) \<Longrightarrow>
   (\<And>txt. P (NllbCall txt (dict_get NLLB_LANG_CODE_MAP src ''eng_Latn'')
                (dict_get NLLB_LANG_CODE_MAP tgt ''eng_Latn''))) \<Longrightarrow>
   keeps (emits P) (translate_with_nllb w text src tgt)"
  unfolding translate_with_nllb_def
  by (intro emits_intros get_nllb_pipeline_emits) (auto simp: plain_def)

lemma load_parler_emits: "(\<And>e. plain e \<Longrightarrow> P e) \<Longrightarrow> keeps (emits P) (load_parler_tts w)"
  unfolding load_parler_tts_def by (intro emits_intros) (auto simp: plain_def)

lemma get_tts_engine_emits: "(\<And>e. plain e \<Longrightarrow> P e) \<Longrightarrow> keeps (emits P) (get_tts_engine w)"
  unfolding get_tts_engine_def by (intro emits_intros) (auto simp: plain_def)

lemma generate_speech_emits: "(\<And>e. plain e \<Longrightarrow> P e) \<Longrightarrow> keeps (emits P) (generate_speech w p d f)"
  unfolding generate_speech_def write_wav_def
  by (intro emits_intros load_parler_emits play_wav_emits) (auto simp: plain_def)

lemma play_tts_output_emits: "(\<And>e. plain e \<Longrightarrow> P e) \<Longrightarrow> keeps (emits P) (play_tts_output w t l c)"
  unfolding play_tts_output_def
  by (intro emits_intros generate_speech_emits get_tts_engine_emits) (auto simp: plain_def)

lemma update_log_emits: "(\<And>e. plain e \<Longrightarrow> P e) \<Longrightarrow> keeps (emits P) (update_log w p e)"
  unfolding update_log_def read_existing_def
  by (intro emits_intros) (auto simp: plain_def)

lemma run_emits:
  "(\<And>e. plain e \<Longrightarrow> P e) \<Longrightarrow> (\<And>n. P (Phase n)) \<Longrightarrow>
   (\<And>txt tgt. P (NllbCall txt ''eng_Latn'' tgt)) \<Longrightarrow>
   keeps (emits P) (run_voice2voice_evaluation w d p)"
  unfolding run_voice2voice_evaluation_def now_def mem_def
  by (intro emits_intros play_beep_emits record_audio_emits transcribe_audio_emits
      get_target_language_emits translate_emits play_tts_output_emits update_log_emits)
     (auto simp: dict_get_def)

lemma new_events_member:
  "keeps (emits P) m \<Longrightarrow> m s = (r, s') \<Longrightarrow> e \<in> set (new_events s s') \<Longrightarrow> P e"
  by (drule (1) keepsD, drule emits_new_events) (auto simp: list_all_iff)

lemma supported_code_lookup:
  "(name, code) \<in> set SUPPORTED_LANGUAGES \<Longrightarrow> map_of NLLB_LANG_CODE_MAP code \<noteq> None"
  by (auto simp: SUPPORTED_LANGUAGES_def NLLB_LANG_CODE_MAP_def)

subsection \<open>Language codes\<close>

text \<open>
  Claim C10. Every code that \<open>SUPPORTED_LANGUAGES\<close> gives is a key of
  \<open>NLLB_LANG_CODE_MAP\<close>: the lookup with the default falls on the code's own entry,
  and whenever \<open>translate_with_nllb\<close> is given such a code as the target, every call
  it makes to the NLLB model names that entry as the target language.
\<close>

theorem supported_codes_are_nllb_keys:
  assumes "(name, code) \<in> set SUPPORTED_LANGUAGES"
  shows "\<exists>c. map_of NLLB_LANG_CODE_MAP code = Some c \<and>
           dict_get NLLB_LANG_CODE_MAP (Some code) ''eng_Latn'' = c \<and>
           (\<forall>w text src s r s' a b t.
              translate_with_nllb w text src (Some code) s = (r, s') \<longrightarrow>
              NllbCall a b t \<in> set (new_events s s') \<longrightarrow> t = c)"
proof -
  from supported_code_lookup [OF assms]
  obtain c where c: "map_of NLLB_LANG_CODE_MAP code = Some c" by auto
  then have g: "dict_get NLLB_LANG_CODE_MAP (Some code) ''eng_Latn'' = c"
    by (simp add: dict_get_def)
  have k: "keeps (emits (\<lambda>e. \<forall>a b t. e = NllbCall a b t \<longrightarrow> t = c))
          (translate_with_nllb w tx sl (Some code))" for w tx sl
    by (rule translate_emits) (auto simp: plain_def g)
  have "t = c" if "translate_with_nllb w tx sl (Some code) s = (r, s')"
    and "NllbCall a b t \<in> set (new_events s s')" for w tx sl s r s' a b t
    using new_events_member [OF k that] by simp
  with c g show ?thesis by blast
qed

theorem supported_codes_are_nllb_keys_witness:
  "(''hindi'', ''hi'') \<in> set SUPPORTED_LANGUAGES \<and>
   map_of NLLB_LANG_CODE_MAP ''hi'' = Some ''hin_Deva'' \<and>
   new_events s0 (snd (translate_with_nllb w_ok (Some ''hello'') None (Some ''hi'') s0)) =
     [NllbLoad, NllbSetEngine, NllbQuantize, NllbCall ''hello'' ''eng_Latn'' ''hin_Deva'']"
proof -
  have m: "(''hindi'', ''hi'') \<in> set SUPPORTED_LANGUAGES"
    by (simp add: SUPPORTED_LANGUAGES_def)
  have t: "new_events s0 (snd (translate_with_nllb w_ok (Some ''hello'') None (Some ''hi'') s0)) =
     [NllbLoad, NllbSetEngine, NllbQuantize, NllbCall ''hello'' ''eng_Latn'' ''hin_Deva'']"
    by code_simp
  from supported_codes_are_nllb_keys [OF m] show ?thesis using m t
    by (simp add: NLLB_LANG_CODE_MAP_def)
qed

text \<open>
  Claim C9. The pipeline passes \<open>None\<close> as the source code, and \<open>None\<close> and every
  code outside \<open>NLLB_LANG_CODE_MAP\<close> are mapped to \<open>eng_Latn\<close>. So in every run every
  call to the NLLB model names \<open>eng_Latn\<close> as the source language, and the calls of
  any two runs, whatever Whisper detected in them, name the same source language.
\<close>

theorem translation_source_is_english:
  assumes "run_voice2voice_evaluation w1 d1 p1 s1 = (r1, s1')"
    and "run_voice2voice_evaluation w2 d2 p2 s2 = (r2, s2')"
    and "NllbCall a1 b1 t1 \<in> set (new_events s1 s1')"
    and "NllbCall a2 b2 t2 \<in> set (new_events s2 s2')"
  shows "b1 = ''eng_Latn'' \<and> b2 = b1 \<and>
         dict_get NLLB_LANG_CODE_MAP None ''eng_Latn'' = ''eng_Latn'' \<and>
         (\<forall>k. map_of NLLB_LANG_CODE_MAP k = None \<longrightarrow>
               dict_get NLLB_LANG_CODE_MAP (Some k) ''eng_Latn'' = ''eng_Latn'')"
proof -
  have k: "keeps (emits (\<lambda>e. \<forall>a b t. e = NllbCall a b t \<longrightarrow> b = ''eng_Latn''))
             (run_voice2voice_evaluation w d p)" for w d p
    by (rule run_emits) (auto simp: plain_def)
  from new_events_member [OF k assms(1) assms(3)] have "b1 = ''eng_Latn''" by simp
  moreover from new_events_member [OF k assms(2) assms(4)] have "b2 = ''eng_Latn''" by simp
  ultimately show ?thesis by (simp add: dict_get_def)
qed

theorem translation_source_is_english_witness:
  "NllbCall ''hindi'' ''eng_Latn'' ''hin_Deva''
     \<in> set (new_events s0 (snd (run_voice2voice_evaluation w_ok 2 ''evaluation_log.json'' s0))) \<and>
   NllbCall ''namaste'' ''eng_Latn'' ''hin_Deva''
     \<in> set (new_events s0 (snd (run_voice2voice_evaluation w_indic 2 ''evaluation_log.json'' s0)))"
proof -
  have a: "NllbCall ''hindi'' ''eng_Latn'' ''hin_Deva''
     \<in> set (new_events s0 (snd (run_voice2voice_evaluation w_ok 2 ''evaluation_log.json'' s0)))"
    by code_simp
  have b: "NllbCall ''namaste'' ''eng_Latn'' ''hin_Deva''
     \<in> set (new_events s0 (snd (run_voice2voice_evaluation w_indic 2 ''evaluation_log.json'' s0)))"
    by code_simp
  from translation_source_is_english [OF prod.collapse [symmetric] prod.collapse [symmetric] a b]
  show ?thesis using a b by simp
qed

subsection \<open>Translation\<close>

text \<open>
  Claim C4. \<open>translate_with_nllb\<close> returns \<open>None\<close> and leaves the process as it is
  (no model is loaded or called) when the text is \<open>None\<close>, empty or only whitespace.
  It never raises. On any other text it returns \<open>None\<close> when loading the pipeline
  raises or the model call raises (or its result has no first item or no
  \<open>translation_text\<close>), and otherwise the \<open>translation_text\<close> of the first item the
  model returned.
\<close>

theorem translate_with_nllb_cases:
  "(str_blank text \<longrightarrow> translate_with_nllb w text src tgt s = (Inr None, s)) \<and>
   (\<exists>v s'. translate_with_nllb w text src tgt s = (Inr v, s')) \<and>
   (\<forall>tx. text = Some tx \<longrightarrow> \<not> str_blank text \<longrightarrow>
      (\<forall>e s1. get_nllb_pipeline w s = (Inl e, s1) \<longrightarrow>
         fst (translate_with_nllb w text src tgt s) = Inr None) \<and>
      (\<forall>h s1. get_nllb_pipeline w s = (Inr h, s1) \<longrightarrow>
         fst (translate_with_nllb w text src tgt s) =
           Inr (case nllb_call w (clock s1) h tx
                       (dict_get NLLB_LANG_CODE_MAP src ''eng_Latn'')
                       (dict_get NLLB_LANG_CODE_MAP tgt ''eng_Latn'') of
                  Inl e \<Rightarrow> None
                | Inr [] \<Rightarrow> None
                | Inr (d # _) \<Rightarrow> map_of d ''translation_text'')))"
  by (auto simp: translate_with_nllb_def str_blank_def prog_defs Let_def
           split: option.splits sum.splits prod.splits list.splits)

theorem translate_with_nllb_cases_witness:
  "translate_with_nllb w_ok (Some ''  '') None (Some ''hi'') s0 = (Inr None, s0) \<and>
   fst (translate_with_nllb w_ok (Some ''hello'') None (Some ''hi'') s0) = Inr (Some ''namaste'') \<and>
   fst (translate_with_nllb w_nllb_down (Some ''hello'') None (Some ''hi'') s0) = Inr None"
proof -
  have b: "str_blank (Some ''  '')"
    by code_simp
  have h: "fst (translate_with_nllb w_ok (Some ''hello'') None (Some ''hi'') s0) = Inr (Some ''namaste'')"
    by code_simp
  have d: "fst (translate_with_nllb w_nllb_down (Some ''hello'') None (Some ''hi'') s0) = Inr None"
    by code_simp
  from translate_with_nllb_cases [of "Some ''  ''" w_ok None "Some ''hi''" s0] b h d
  show ?thesis by simp
qed

subsection \<open>Routing of the transcription\<close>

lemma indian_keys: "dict_contains INDIAN_LANG_MAP (Some code) = (code \<in> set (map fst INDIAN_LANG_MAP))"
  by (simp add: dict_contains_def map_of_eq_None_iff)

lemma indic_transcribe_emits:
  "keeps (emits (\<lambda>e. \<forall>p. e \<noteq> WhisperDecode p)) (indic_transcribe w path code)"
  unfolding indic_transcribe_def get_indic_model_def
  by (intro emits_intros) auto

lemma whisper_transcribe_emits:
  "keeps (emits (\<lambda>e. e \<noteq> IndicLoad \<and> (\<forall>p l. e \<noteq> IndicCall p l))) (whisper_transcribe w path m)"
  unfolding whisper_transcribe_def
  by (intro emits_intros) auto

text \<open>
  Claim C6. When the Whisper model is available and detection returns a code,
  \<open>is_indian\<close> is true exactly when the code is one of the 22 keys of
  \<open>INDIAN_LANG_MAP\<close>, and \<open>transcribe_audio\<close> continues as \<open>indic_transcribe\<close> with
  that code when it is a key and as \<open>whisper_transcribe\<close> otherwise. The IndicConformer
  branch never decodes with Whisper and the Whisper branch never calls IndicConformer.
\<close>

theorem transcribe_audio_routes_by_detected_code:
  assumes "get_whisper_model w s = (Inr m, s1)"
    and "detect_input_language_whisper w path m s1 = (Inr (code, name, is_indic), s2)"
  shows "is_indic = (code \<in> set (map fst INDIAN_LANG_MAP)) \<and>
         transcribe_audio w path s =
           (if code \<in> set (map fst INDIAN_LANG_MAP) then indic_transcribe w path code s2
            else whisper_transcribe w path m s2) \<and>
         (\<forall>r s3 p. indic_transcribe w path code s2 = (r, s3) \<longrightarrow>
                    WhisperDecode p \<notin> set (new_events s2 s3)) \<and>
         (\<forall>r s3 p l. whisper_transcribe w path m s2 = (r, s3) \<longrightarrow>
                    IndicCall p l \<notin> set (new_events s2 s3)) \<and>
         length INDIAN_LANG_MAP = 22 \<and> distinct (map fst INDIAN_LANG_MAP)"
proof -
  have i: "is_indic = (code \<in> set (map fst INDIAN_LANG_MAP))"
    using assms(2) unfolding detect_input_language_whisper_def indian_keys [symmetric]
    by (auto simp: prog_defs Let_def split: sum.splits prod.splits)
  have t: "transcribe_audio w path s =
           (if code \<in> set (map fst INDIAN_LANG_MAP) then indic_transcribe w path code s2
            else whisper_transcribe w path m s2)"
    using assms i by (simp add: transcribe_audio_def bindE_def)
  have a: "WhisperDecode p \<notin> set (new_events s2 s3)"
    if "indic_transcribe w path code s2 = (r, s3)" for r s3 p
    using new_events_member [OF indic_transcribe_emits that] by blast
  have b: "IndicCall p l \<notin> set (new_events s2 s3)"
    if "whisper_transcribe w path m s2 = (r, s3)" for r s3 p l
    using new_events_member [OF whisper_transcribe_emits that] by blast
  have c: "length INDIAN_LANG_MAP = 22 \<and> distinct (map fst INDIAN_LANG_MAP)"
    by (simp add: INDIAN_LANG_MAP_def)
  from i t a b c show ?thesis by blast
qed

theorem transcribe_audio_routes_by_detected_code_witness:
  "new_events s0 (snd (transcribe_audio w_indic ''input.wav'' s0)) =
     [WhisperLoad, WhisperDetect ''input.wav'', IndicLoad, IndicCall ''input.wav'' ''hi''] \<and>
   new_events s0 (snd (transcribe_audio w_ok ''input.wav'' s0)) =
     [WhisperLoad, WhisperDetect ''input.wav'', WhisperDecode ''input.wav'']"
proof -
  have a: "get_whisper_model w_indic s0 = (Inr 1, snd (get_whisper_model w_indic s0))"
    by (simp add: get_whisper_model_def prog_defs s0_def w_indic_def w_ok_def)
  have b: "detect_input_language_whisper w_indic ''input.wav'' 1 (snd (get_whisper_model w_indic s0)) =
      (Inr (''hi'', ''Hindi'', True),
       snd (detect_input_language_whisper w_indic ''input.wav'' 1 (snd (get_whisper_model w_indic s0))))"
    by (simp add: detect_input_language_whisper_def get_whisper_model_def prog_defs s0_def
        w_indic_def w_ok_def dict_contains_def dict_get_def INDIAN_LANG_MAP_def)
  have c: "new_events s0 (snd (transcribe_audio w_indic ''input.wav'' s0)) =
     [WhisperLoad, WhisperDetect ''input.wav'', IndicLoad, IndicCall ''input.wav'' ''hi'']"
    by code_simp
  have d: "new_events s0 (snd (transcribe_audio w_ok ''input.wav'' s0)) =
     [WhisperLoad, WhisperDetect ''input.wav'', WhisperDecode ''input.wav'']"
    by code_simp
  from transcribe_audio_routes_by_detected_code [OF a b] c d show ?thesis by simp
qed

subsection \<open>Model loaders\<close>























subsection \<open>Recording\<close>

lemma band_edges_value:
  "fs \<noteq> 0 \<Longrightarrow>
   band_edges lowcut highcut fs =
     Inr (max (lowcut / (fs / 2)) (1 / 1000000), min (highcut / (fs / 2)) (999 / 1000))"
  by (simp add: band_edges_def)

lemma band_edges_zero: "band_edges lowcut highcut 0 = Inl ZeroDivisionError"
  by (simp add: band_edges_def)

lemma record_audio_result:
  assumes "record_audio w duration fs filename playback s = (Inr r, s')"
  shows "r = filename \<and>
         (\<exists>data low high ba.
            sd_rec w (clock s) (py_int (duration * fs)) fs = Inr data \<and>
            band_edges 80 7900 fs = Inr (low, high) \<and>
            butter w 4 low high = Inr ba \<and>
            files s' = (files s)(filename \<mapsto> Wav (lfilter w ba (concat data)) fs) \<and>
            new_events s s' =
              SdRec (py_int (duration * fs)) fs # (if playback then [SdPlay] else [])
                @ [SfWrite filename])"
  using assms
  unfolding record_audio_def write_wav_def bandpass_filter_def butter_bandpass_def
  by (auto simp: prog_defs new_events_def Let_def split: sum.splits prod.splits if_splits)

text \<open>
  Claim C8, as amended. A call of \<open>record_audio\<close> that returns gives back the filename
  it was given and has written exactly one sound file, under that name: the samples
  are \<open>lfilter\<close> applied, with the coefficients of an order 4 Butterworth band-pass
  design, to the flattened recording. The band edges handed to \<open>butter\<close> are
  \<open>max (80 / nyq) 1e-6\<close> and \<open>min (7900 / nyq) 0.999\<close> with \<open>nyq = fs / 2\<close>; they are
  80 Hz and 7900 Hz when the sample rate is between 15816 and 160000000, as it is for
  the default rate 16000.
\<close>

theorem record_audio_writes_filtered:
  assumes "record_audio w duration fs filename playback s = (Inr r, s')"
  shows "r = filename \<and>
         (\<exists>data ba.
            sd_rec w (clock s) (py_int (duration * fs)) fs = Inr data \<and>
            butter w 4 (max (80 / (fs / 2)) (1 / 1000000)) (min (7900 / (fs / 2)) (999 / 1000))
              = Inr ba \<and>
            files s' = (files s)(filename \<mapsto> Wav (lfilter w ba (concat data)) fs) \<and>
            [e \<leftarrow> new_events s s'. \<exists>p. e = SfWrite p] = [SfWrite filename]) \<and>
         (15816 \<le> fs \<and> fs \<le> 160000000 \<longrightarrow>
            max (80 / (fs / 2)) (1 / 1000000) * (fs / 2) = 80 \<and>
            min (7900 / (fs / 2)) (999 / 1000) * (fs / 2) = 7900)"
proof -
  from record_audio_result [OF assms] obtain data low high ba where
    r: "r = filename"
    and d: "sd_rec w (clock s) (py_int (duration * fs)) fs = Inr data"
    and e: "band_edges 80 7900 fs = Inr (low, high)"
    and b: "butter w 4 low high = Inr ba"
    and f: "files s' = (files s)(filename \<mapsto> Wav (lfilter w ba (concat data)) fs)"
    and n: "new_events s s' =
              SdRec (py_int (duration * fs)) fs # (if playback then [SdPlay] else [])
                @ [SfWrite filename]"
    by blast
  from e have "fs \<noteq> 0" using band_edges_zero by (cases "fs = 0") auto
  with e have lh: "low = max (80 / (fs / 2)) (1 / 1000000)"
    "high = min (7900 / (fs / 2)) (999 / 1000)"
    by (simp_all add: band_edges_value)
  have w: "[e \<leftarrow> new_events s s'. \<exists>p. e = SfWrite p] = [SfWrite filename]"
    by (simp add: n)
  have c: "max (80 / (fs / 2)) (1 / 1000000) * (fs / 2) = 80 \<and>
           min (7900 / (fs / 2)) (999 / 1000) * (fs / 2) = 7900"
    if "15816 \<le> fs \<and> fs \<le> 160000000"
  proof -
    from that have p: "0 < fs" by simp
    from that p have "1 / 1000000 \<le> 80 / (fs / 2)"
      by (simp add: field_simps)
    moreover from that p have "7900 / (fs / 2) \<le> 999 / 1000"
      by (simp add: field_simps)
    ultimately show ?thesis using p by (simp add: max_def min_def)
  qed
  from r d b f w c lh show ?thesis by blast
qed

theorem record_audio_writes_filtered_witness:
  "fst (record_audio w_ok 2 16000 ''input.wav'' False s0) = Inr ''input.wav'' \<and>
   files (snd (record_audio w_ok 2 16000 ''input.wav'' False s0)) ''input.wav''
     = Some (Wav [1/2, 1/4] 16000) \<and>
   butter w_ok 4 (1 / 100) (79 / 80) = Inr ([1 / 100], [79 / 80])"
proof -
  have a': "fst (record_audio w_ok 2 16000 ''input.wav'' False s0) = Inr ''input.wav''"
    by (simp add: record_audio_def write_wav_def bandpass_filter_def butter_bandpass_def
        band_edges_def prog_defs s0_def w_ok_def py_int_def)
  then have a: "record_audio w_ok 2 16000 ''input.wav'' False s0 =
     (Inr ''input.wav'', snd (record_audio w_ok 2 16000 ''input.wav'' False s0))"
    by (cases "record_audio w_ok 2 16000 ''input.wav'' False s0") simp
  have f: "files (snd (record_audio w_ok 2 16000 ''input.wav'' False s0)) ''input.wav''
     = Some (Wav [1/2, 1/4] 16000)"
    by (simp add: record_audio_def write_wav_def bandpass_filter_def butter_bandpass_def
        band_edges_def prog_defs s0_def w_ok_def py_int_def)
  have b: "butter w_ok 4 (1 / 100) (79 / 80) = Inr ([1 / 100], [79 / 80])"
    by (simp add: w_ok_def)
  from record_audio_writes_filtered [OF a] a' f b show ?thesis by simp
qed

text \<open>
  Claim C8 as stated fails at the sample rate 8000: the upper band edge handed to
  \<open>butter\<close> is 0.999 of the Nyquist frequency, that is 3996 Hz, and not 7900 Hz.
\<close>

theorem record_audio_clamps_band_at_8000:
  "band_edges 80 7900 8000 = Inr (1 / 50, 999 / 1000) \<and>
   (999 / 1000) * ((1 / 2) * 8000) = (3996 :: real) \<and>
   butter_bandpass w_ok 80 7900 8000 4 \<noteq> butter w_ok 4 (80 / 4000) (7900 / 4000)"
  by (simp add: band_edges_def butter_bandpass_def w_ok_def)

subsection \<open>Language names\<close>

lemma supported_names_normal:
  "list_all (\<lambda>name. normalize_language_input name = name) (map fst SUPPORTED_LANGUAGES)"
  by code_simp

lemma supported_name_normal:
  "name \<in> set (map fst SUPPORTED_LANGUAGES) \<Longrightarrow> normalize_language_input name = name"
  using supported_names_normal by (simp only: list_all_iff)

lemma supported_distinct:
  "length SUPPORTED_LANGUAGES = 14 \<and> distinct (map fst SUPPORTED_LANGUAGES)"
  by (simp add: SUPPORTED_LANGUAGES_def)

lemma supported_lookup:
  "(name, code) \<in> set SUPPORTED_LANGUAGES \<Longrightarrow> map_of SUPPORTED_LANGUAGES name = Some code"
  using supported_distinct by simp

lemma exact_matches_subset: "set (exact_matches word ps n c) \<subseteq> set ps"
  by (auto simp: exact_matches_def dest: in_set_takeD)

lemma exact_matches_exact:
  "name \<in> set (map fst SUPPORTED_LANGUAGES) \<Longrightarrow>
   exact_matches name (map fst SUPPORTED_LANGUAGES) 1 c = [name]"
  by (auto simp: exact_matches_def SUPPORTED_LANGUAGES_def)

text \<open>
  Claim C5. \<open>get_close_matches\<close> belongs to the Python standard library and is a
  parameter \<open>gcm\<close> here; of it the theorem uses that its answers are among the
  possibilities and that a word that is itself a possibility is its own closest match.
  Then \<open>get_language_code\<close> asks for the one closest match, at cutoff 0.5 among the 14
  names, of the input lowercased, with ``language'' and then ``lang'' deleted, and
  stripped; it returns \<open>(None, None)\<close> when there is none and the code and the name of
  the match otherwise. On each of the 14 names it returns that name's code and the
  name.
\<close>

theorem get_language_code_closest_match:
  assumes "\<And>word. set (gcm word (map fst SUPPORTED_LANGUAGES) 1 (1/2))
                    \<subseteq> set (map fst SUPPORTED_LANGUAGES)"
    and "\<And>name. name \<in> set (map fst SUPPORTED_LANGUAGES) \<Longrightarrow>
                 gcm name (map fst SUPPORTED_LANGUAGES) 1 (1/2) = [name]"
  shows "get_language_code gcm s =
           (case gcm (str_strip (str_delete ''lang'' (str_delete ''language'' (str_lower s))))
                     (map fst SUPPORTED_LANGUAGES) 1 (1/2) of
              [] \<Rightarrow> Inr (None, None)
            | name # _ \<Rightarrow> Inr (map_of SUPPORTED_LANGUAGES name, Some name)) \<and>
         (\<forall>code name. get_language_code gcm s = Inr (Some code, Some name) \<longrightarrow>
            (name, code) \<in> set SUPPORTED_LANGUAGES) \<and>
         (\<forall>name code. (name, code) \<in> set SUPPORTED_LANGUAGES \<longrightarrow>
            get_language_code gcm name = Inr (Some code, Some name)) \<and>
         length SUPPORTED_LANGUAGES = 14 \<and> distinct (map fst SUPPORTED_LANGUAGES)"
proof -
  let ?n = "str_strip (str_delete ''lang'' (str_delete ''language'' (str_lower s)))"
  let ?keys = "map fst SUPPORTED_LANGUAGES"
  have key: "map_of SUPPORTED_LANGUAGES name \<noteq> None"
    if "gcm word ?keys 1 (1/2) = name # rest" for word name rest
  proof -
    from assms(1) [of word] that have "name \<in> set ?keys" by auto
    then show ?thesis by (simp add: map_of_eq_None_iff)
  qed
  have a: "get_language_code gcm s =
           (case gcm ?n ?keys 1 (1/2) of
              [] \<Rightarrow> Inr (None, None)
            | name # _ \<Rightarrow> Inr (map_of SUPPORTED_LANGUAGES name, Some name))"
    using key [of ?n]
    by (auto simp: get_language_code_def normalize_language_input_def Let_def
             split: list.splits option.splits)
  have b: "(name, code) \<in> set SUPPORTED_LANGUAGES"
    if "get_language_code gcm s = Inr (Some code, Some name)" for code name
    using that unfolding a by (auto split: list.splits dest: map_of_SomeD)
  have c: "get_language_code gcm name = Inr (Some code, Some name)"
    if "(name, code) \<in> set SUPPORTED_LANGUAGES" for name code
  proof -
    from that have k: "name \<in> set ?keys" by force
    from supported_name_normal [OF k] assms(2) [OF k] supported_lookup [OF that]
    show ?thesis by (simp add: get_language_code_def)
  qed
  from a b c supported_distinct show ?thesis by blast
qed

theorem get_language_code_closest_match_witness:
  "get_language_code exact_matches '' Hindi Language '' = Inr (Some ''hi'', Some ''hindi'') \<and>
   get_language_code exact_matches ''klingon'' = Inr (None, None) \<and>
   get_language_code exact_matches ''tamil'' = Inr (Some ''ta'', Some ''tamil'')"
proof -
  have a: "get_language_code exact_matches '' Hindi Language '' = Inr (Some ''hi'', Some ''hindi'')"
    by code_simp
  have b: "get_language_code exact_matches ''klingon'' = Inr (None, None)"
    by code_simp
  have m: "(''tamil'', ''ta'') \<in> set SUPPORTED_LANGUAGES"
    by (simp add: SUPPORTED_LANGUAGES_def)
  from get_language_code_closest_match [of exact_matches "''tamil''",
      OF exact_matches_subset exact_matches_exact] m a b
  show ?thesis by blast
qed

subsection \<open>Selecting the target language\<close>


lemma bindE_returnE: "bindE (returnE x) f = f x"
  by (simp add: bindE_def returnE_def)




lemma new_events_trans:
  "trace s1 = trace s @ a \<Longrightarrow> trace s2 = trace s1 @ b \<Longrightarrow> new_events s s2 = a @ b"
  by (simp add: new_events_def)










subsection \<open>The order of the phases\<close>

lemma phase_events_simps [simp]:
  "phase_events [] = []"
  "phase_events (Phase n # evs) = n # phase_events evs"
  "phase_events (xs @ ys) = phase_events xs @ phase_events ys"
  by (simp_all add: phase_events_def)












subsection \<open>The evaluation log\<close>



















end
